theory Spec2Isabelle
  imports Complex_Main
begin

section \<open>Vectors of the host API\<close>

text \<open>
  The source works on \<open>MVector\<close> values of the host application: three floating-point
  components, read as \<open>.x\<close>, \<open>.y\<close>, \<open>.z\<close>. Floating-point numbers are idealised as
  real numbers throughout. The operators are the ones the source uses:
  \<open>+\<close>, \<open>-\<close>, \<open>*\<close> between a number and a vector (scaling), \<open>*\<close> between two
  vectors (dot product), \<open>^\<close> (cross product) and \<open>normalize()\<close>.
\<close>

datatype MVector = MVector (vx: real) (vy: real) (vz: real)

definition vplus :: "MVector \<Rightarrow> MVector \<Rightarrow> MVector" where
  "vplus a b = MVector (vx a + vx b) (vy a + vy b) (vz a + vz b)"

definition vminus :: "MVector \<Rightarrow> MVector \<Rightarrow> MVector" where
  "vminus a b = MVector (vx a - vx b) (vy a - vy b) (vz a - vz b)"

definition vscale :: "real \<Rightarrow> MVector \<Rightarrow> MVector" where
  "vscale k a = MVector (k * vx a) (k * vy a) (k * vz a)"

definition vdot :: "MVector \<Rightarrow> MVector \<Rightarrow> real" where
  "vdot a b = vx a * vx b + vy a * vy b + vz a * vz b"

definition vcross :: "MVector \<Rightarrow> MVector \<Rightarrow> MVector" where
  "vcross a b = MVector (vy a * vz b - vz a * vy b)
                        (vz a * vx b - vx a * vz b)
                        (vx a * vy b - vy a * vx b)"

definition vlength :: "MVector \<Rightarrow> real" where
  "vlength a = sqrt (vdot a a)"

text \<open>
  Modelled from the spec: \<open>normalize\<close> is a method of the host's vector class and is
  not part of the repository; the spec writes \<open>normalize(V \<times> worldUp)\<close> for the vector
  scaled to unit length. The zero vector is left as it is.
\<close>

definition vnormalize :: "MVector \<Rightarrow> MVector" where
  "vnormalize a = (if vlength a = 0 then a else vscale (1 / vlength a) a)"

section \<open>The reflection placer\<close>

subsection \<open>Reflection vector\<close>

text \<open>
  \<^verbatim>\<open>doublePerp = 2.0 * viewVector * faceNormal\<close>
  \<^verbatim>\<open>return viewVector - (doublePerp * faceNormal)\<close>
  The first product scales the view vector by two, the second is the dot product with the
  normal, the third scales the normal.
\<close>

definition reflectionVector :: "MVector \<Rightarrow> MVector \<Rightarrow> MVector" where
  "reflectionVector viewVector faceNormal =
     (let doublePerp = vdot (vscale 2 viewVector) faceNormal
      in vminus viewVector (vscale doublePerp faceNormal))"

subsection \<open>Host collaborators\<close>

text \<open>
  The scene, the picking, the ray cast and the transform access belong to the host
  application. They are parameters of the model: one record of functions, which the
  operations read. A transform is the decomposition the source edits: translation and
  rotation are overwritten, the scaling is carried along. The extraction of a quaternion
  from a rotation matrix is the host's, too.
\<close>

datatype MQuaternion = MQuaternion real real real real

record xform =
  translation :: MVector
  rotation :: MQuaternion
  scaling :: MVector

record scene =
  activeSelection :: "string option"
  selectFromScreen :: "int \<Rightarrow> int \<Rightarrow> string option"
  extendToShape :: "string \<Rightarrow> string"
  hasFnMesh :: "string \<Rightarrow> bool"
  viewToWorld :: "int \<Rightarrow> int \<Rightarrow> MVector \<times> MVector"
  closestIntersection :: "string \<Rightarrow> MVector \<Rightarrow> MVector \<Rightarrow> MVector option"
  getClosestNormal :: "string \<Rightarrow> MVector \<Rightarrow> MVector"
  worldMatrix :: "string \<Rightarrow> xform"
  rotationOf :: "MVector \<times> MVector \<times> MVector \<Rightarrow> MQuaternion"

datatype error = AttributeError | TypeError | ZeroDivisionError

text \<open>Python's \<open>int()\<close> on a float truncates towards zero.\<close>

definition py_int :: "real \<Rightarrow> int" where
  "py_int r = (if 0 \<le> r then \<lfloor>r\<rfloor> else \<lceil>r\<rceil>)"

subsection \<open>State of the tool\<close>

text \<open>
  The fields of the class \<open>PlaceReflection\<close>; the private field \<open>_x\<close> is written
  \<open>pr_x\<close>. The reflection point and the reflection vector are \<open>None\<close> until the first
  placement.
\<close>

record PlaceReflection =
  pr_dag :: "string option"
  pr_meshDag :: "string option"
  pr_isSet :: bool
  pr_reflPoint :: "MVector option"
  pr_dist :: real
  pr_moveDist :: real
  pr_reflVector :: "MVector option"
  pr_axis :: int
  pr_invert :: bool
  pr_translate :: bool
  pr_rotate :: bool
  pr_speedSlow :: real
  pr_speedFast :: real

definition pr_init :: PlaceReflection where
  "pr_init = \<lparr> pr_dag = None, pr_meshDag = None, pr_isSet = False, pr_reflPoint = None,
               pr_dist = 0, pr_moveDist = 0, pr_reflVector = None, pr_axis = 2,
               pr_invert = True, pr_translate = True, pr_rotate = True,
               pr_speedSlow = 1 / 1000, pr_speedFast = 1 / 100 \<rparr>"

subsection \<open>Distance and basis construction\<close>

definition distance :: "MVector \<Rightarrow> MVector \<Rightarrow> real" where
  "distance point1 point2 =
     sqrt (0 + (vx point1 - vx point2)\<^sup>2 + (vy point1 - vy point2)\<^sup>2
             + (vz point1 - vz point2)\<^sup>2)"

text \<open>
  The three rows \<open>xRot\<close>, \<open>yRot\<close>, \<open>zRot\<close> that \<open>_quatFromVector\<close> writes into the
  matrix, for the axis preference and the invert preference of the tool.
\<close>

definition quatFromVector_rows :: "int \<Rightarrow> bool \<Rightarrow> MVector \<Rightarrow> MVector \<times> MVector \<times> MVector" where
  "quatFromVector_rows axis invert vector =
     (let cross1 = vnormalize (vcross vector (MVector 0 1 0));
          cross2 = vnormalize (vcross vector cross1)
      in if axis = 0 then
           (let xRot = MVector (- vx vector) (- vy vector) (- vz vector);
                yRot = MVector (- vx cross2) (- vy cross2) (- vz cross2);
                zRot = cross1
            in if invert then (MVector (- vx xRot) (- vy xRot) (- vz xRot), yRot, zRot)
               else (xRot, yRot, zRot))
         else if axis = 1 then
           (let xRot = MVector (- vx cross2) (- vy cross2) (- vz cross2);
                yRot = MVector (- vx vector) (- vy vector) (- vz vector);
                zRot = cross1
            in if invert then (xRot, MVector (- vx yRot) (- vy yRot) (- vz yRot), zRot)
               else (xRot, yRot, zRot))
         else
           (let xRot = cross1;
                yRot = MVector (- vx cross2) (- vy cross2) (- vz cross2);
                zRot = vector
            in if invert then (MVector (- vx xRot) (- vy xRot) (- vz xRot), yRot,
                            MVector (- vx zRot) (- vy zRot) (- vz zRot))
               else (xRot, yRot, zRot)))"

definition quatFromVector :: "scene \<Rightarrow> PlaceReflection \<Rightarrow> MVector \<Rightarrow> MQuaternion" where
  "quatFromVector h s vector = rotationOf h (quatFromVector_rows (pr_axis s) (pr_invert s) vector)"

text \<open>Determinant of the matrix of three rows, and what the claims call a frame.\<close>

definition det3 :: "MVector \<times> MVector \<times> MVector \<Rightarrow> real" where
  "det3 rows = (case rows of (a, b, c) \<Rightarrow> vdot a (vcross b c))"

definition orthonormal :: "MVector \<times> MVector \<times> MVector \<Rightarrow> bool" where
  "orthonormal rows = (case rows of (a, b, c) \<Rightarrow>
     vdot a a = 1 \<and> vdot b b = 1 \<and> vdot c c = 1 \<and>
     vdot a b = 0 \<and> vdot a c = 0 \<and> vdot b c = 0)"

definition rightHanded :: "MVector \<times> MVector \<times> MVector \<Rightarrow> bool" where
  "rightHanded rows = (case rows of (a, b, c) \<Rightarrow> vcross a b = c)"

subsection \<open>Press, drag, release\<close>

definition pr_press :: "scene \<Rightarrow> PlaceReflection \<Rightarrow> PlaceReflection" where
  "pr_press h s =
     (let s1 = s\<lparr>pr_dag := activeSelection h\<rparr>
      in if pr_dag s1 = None then s1 else s1\<lparr>pr_dist := pr_moveDist s1\<rparr>)"

definition pr_release :: "PlaceReflection \<Rightarrow> PlaceReflection" where
  "pr_release s = s\<lparr>pr_dag := None, pr_meshDag := None\<rparr>"

definition pr_finalize :: "PlaceReflection \<Rightarrow> PlaceReflection" where
  "pr_finalize s = s\<lparr>pr_moveDist := 0, pr_isSet := False\<rparr>"

definition getMesh :: "scene \<Rightarrow> PlaceReflection \<Rightarrow> int \<Rightarrow> int \<Rightarrow> error + string option" where
  "getMesh h s xPos yPos =
     (case selectFromScreen h xPos yPos of
        None \<Rightarrow> Inr None
      | Some dagPath \<Rightarrow>
          (case pr_dag s of
             None \<Rightarrow> Inl AttributeError
           | Some d \<Rightarrow>
               if dagPath = d \<and> pr_meshDag s \<noteq> None then Inr (pr_meshDag s)
               else (let name = extendToShape h dagPath
                     in if \<not> hasFnMesh h name then Inr None else Inr (Some name))))"

text \<open>
  The end of \<open>_place\<close>, shared by both modes: read the world matrix of the object,
  overwrite the translation and the rotation as the preferences say, and hand the
  transform to \<open>cmds.xform\<close>. The result is the object and the transform written.
\<close>

definition place_write :: "scene \<Rightarrow> PlaceReflection \<Rightarrow> error + (PlaceReflection \<times> (string \<times> xform) option)" where
  "place_write h s =
     (case pr_dag s of
        None \<Rightarrow> Inl AttributeError
      | Some d \<Rightarrow>
          (let transMat = worldMatrix h d
           in case (if pr_translate s
                    then (case (pr_reflVector s, pr_reflPoint s) of
                            (Some R, Some P) \<Rightarrow>
                              Inr (transMat\<lparr>translation := vplus (vscale (pr_moveDist s) R) P\<rparr>)
                          | _ \<Rightarrow> Inl TypeError)
                    else Inr transMat) of
                Inl e \<Rightarrow> Inl e
              | Inr t1 \<Rightarrow>
                  (case (if pr_rotate s
                         then (case pr_reflVector s of
                                 Some R \<Rightarrow> Inr (t1\<lparr>rotation := quatFromVector h s R\<rparr>)
                               | None \<Rightarrow> Inl TypeError)
                         else Inr t1) of
                     Inl e \<Rightarrow> Inl e
                   | Inr t2 \<Rightarrow> Inr (s, Some (d, t2)))))"

text \<open>Place mode, once a mesh is under the cursor.\<close>

definition place_hit :: "scene \<Rightarrow> PlaceReflection \<Rightarrow> string \<Rightarrow> int \<Rightarrow> int \<Rightarrow> error + (PlaceReflection \<times> (string \<times> xform) option)" where
  "place_hit h s dagPath xPos yPos =
     (case viewToWorld h xPos yPos of
        (worldPt, worldVector) \<Rightarrow>
          (let viewVector = vnormalize worldVector
           in case closestIntersection h dagPath worldPt viewVector of
                None \<Rightarrow> Inr (s, None)
              | Some hit \<Rightarrow>
                  (case pr_dag s of
                     None \<Rightarrow> Inl AttributeError
                   | Some d \<Rightarrow>
                       (let faceNormal = getClosestNormal h dagPath hit;
                            pos = translation (worldMatrix h d);
                            dst = distance hit pos
                        in place_write h
                             (s\<lparr>pr_reflPoint := Some hit,
                                pr_reflVector := Some (reflectionVector viewVector faceNormal),
                                pr_dist := dst, pr_moveDist := dst, pr_isSet := True\<rparr>)))))"

text \<open>
  The move distance \<open>_dist * (1 + dragDist)\<close> is computed in exact real arithmetic here;
  the source rounds each operation to a double. Equalities and non-strict bounds between
  results of the same expression carry over, strict bounds need not.
\<close>

definition pr_place :: "scene \<Rightarrow> PlaceReflection \<Rightarrow> real \<times> real \<Rightarrow> real \<times> real \<Rightarrow> string \<Rightarrow> error + (PlaceReflection \<times> (string \<times> xform) option)" where
  "pr_place h s startPoint point modifier =
     (let xPos = py_int (fst point); yPos = py_int (snd point)
      in if modifier = ''none'' then
           (case getMesh h s xPos yPos of
              Inl e \<Rightarrow> Inl e
            | Inr None \<Rightarrow> Inr (s, None)
            | Inr (Some dagPath) \<Rightarrow>
                place_hit h (s\<lparr>pr_meshDag := Some dagPath\<rparr>) dagPath xPos yPos)
         else if pr_isSet s then
           (let speedVal = (if modifier = ''shift'' then pr_speedFast s else pr_speedSlow s);
                xPosStart = py_int (fst startPoint);
                dragDist = real_of_int (xPos - xPosStart) * speedVal
            in place_write h (s\<lparr>pr_moveDist := pr_dist s * (1 + dragDist)\<rparr>))
         else Inr (s, None))"

definition pr_drag :: "scene \<Rightarrow> PlaceReflection \<Rightarrow> real \<times> real \<Rightarrow> real \<times> real \<Rightarrow> string \<Rightarrow> error + (PlaceReflection \<times> (string \<times> xform) option)" where
  "pr_drag h s anchorPoint dragPoint modifier =
     (if pr_dag s = None then Inr (s, None)
      else pr_place h s anchorPoint dragPoint modifier)"

subsection \<open>Tool sessions\<close>

text \<open>
  A tool session is a sequence of callbacks of the host, each with the scene as it is at
  that moment. An exception raised by a callback ends the run.
\<close>

datatype pr_event =
    Press scene
  | Drag scene "real \<times> real" "real \<times> real" string
  | Release
  | Finalize

fun pr_step :: "PlaceReflection \<Rightarrow> pr_event \<Rightarrow> error + PlaceReflection" where
  "pr_step s (Press h) = Inr (pr_press h s)"
| "pr_step s (Drag h a p m) = (case pr_drag h s a p m of Inl e \<Rightarrow> Inl e | Inr (s1, w) \<Rightarrow> Inr s1)"
| "pr_step s Release = Inr (pr_release s)"
| "pr_step s Finalize = Inr (pr_finalize s)"

fun pr_run :: "PlaceReflection \<Rightarrow> pr_event list \<Rightarrow> error + PlaceReflection" where
  "pr_run s [] = Inr s"
| "pr_run s (e # es) = (case pr_step s e of Inl x \<Rightarrow> Inl x | Inr s1 \<Rightarrow> pr_run s1 es)"

subsection \<open>Invariant of the armed flag\<close>

text \<open>
  Once a placement has succeeded, the reflection point and the reflection vector are
  stored; the move mode relies on it.
\<close>

definition armed_inv :: "PlaceReflection \<Rightarrow> bool" where
  "armed_inv s = (pr_isSet s \<longrightarrow> pr_reflPoint s \<noteq> None \<and> pr_reflVector s \<noteq> None)"

subsection \<open>A concrete scene\<close>

text \<open>
  A light above a floor, seen from straight above: the view ray runs down the z axis,
  hits the floor at the origin, and the light sits two units above it. The states
  \<open>demo_armed\<close> and \<open>demo_moved\<close> are the ones the tool reaches by a placement and by
  a following shift drag of fifty pixels.
\<close>

definition demo_scene :: scene where
  "demo_scene = \<lparr> activeSelection = Some ''light'',
      selectFromScreen = (\<lambda>x y. Some ''floor''),
      extendToShape = (\<lambda>n. n @ ''Shape''),
      hasFnMesh = (\<lambda>n. True),
      viewToWorld = (\<lambda>x y. (MVector 0 0 5, MVector 0 0 (-2))),
      closestIntersection = (\<lambda>n p v. Some (MVector 0 0 0)),
      getClosestNormal = (\<lambda>n p. MVector 0 0 1),
      worldMatrix = (\<lambda>n. \<lparr> translation = MVector 0 0 2, rotation = MQuaternion 0 0 0 1, scaling = MVector 1 1 1 \<rparr>),
      rotationOf = (\<lambda>rows. MQuaternion 0 0 0 1) \<rparr>"

definition demo_armed :: PlaceReflection where
  "demo_armed = \<lparr> pr_dag = Some ''light'', pr_meshDag = Some ''floorShape'', pr_isSet = True,
      pr_reflPoint = Some (MVector 0 0 0), pr_dist = 2, pr_moveDist = 2,
      pr_reflVector = Some (MVector 0 0 1), pr_axis = 2, pr_invert = True,
      pr_translate = True, pr_rotate = True, pr_speedSlow = 1 / 1000, pr_speedFast = 1 / 100 \<rparr>"

definition demo_moved :: PlaceReflection where
  "demo_moved = demo_armed\<lparr>pr_moveDist := 3\<rparr>"

section \<open>The quick zoom tool\<close>

subsection \<open>Cameras of the host\<close>

text \<open>
  The camera attributes the source reads and writes. The session of the host holds the
  cameras by name, the camera and the pixel size of the active view, and the list of the
  \<open>setAttr\<close> calls made so far, each with the attribute path and the value written.
\<close>

datatype FilmFit = kFillFilmFit | kHorizontalFilmFit | kVerticalFilmFit | kOverscanFilmFit

record camera =
  isOrtho :: bool
  aspectRatio :: real
  horizontalPan :: real
  verticalPan :: real
  zoom :: real
  overscan :: real
  horizontalFilmAperture :: real
  verticalFilmAperture :: real
  filmFit :: FilmFit
  panZoomEnabled :: bool

datatype attrValue = BoolValue bool | FloatValue real

record maya =
  cameras :: "string \<Rightarrow> camera"
  activeCamera :: string
  viewPortWidth :: int
  viewPortHeight :: int
  setAttrLog :: "(string \<times> attrValue) list"

definition setAttr_panZoomEnabled :: "string \<Rightarrow> bool \<Rightarrow> maya \<Rightarrow> maya" where
  "setAttr_panZoomEnabled cam v w =
     w\<lparr>cameras := (cameras w)(cam := (cameras w cam)\<lparr>panZoomEnabled := v\<rparr>),
       setAttrLog := setAttrLog w @ [(cam @ ''.panZoomEnabled'', BoolValue v)]\<rparr>"

definition setAttr_horizontalPan :: "string \<Rightarrow> real \<Rightarrow> maya \<Rightarrow> maya" where
  "setAttr_horizontalPan cam v w =
     w\<lparr>cameras := (cameras w)(cam := (cameras w cam)\<lparr>horizontalPan := v\<rparr>),
       setAttrLog := setAttrLog w @ [(cam @ ''.horizontalPan'', FloatValue v)]\<rparr>"

definition setAttr_verticalPan :: "string \<Rightarrow> real \<Rightarrow> maya \<Rightarrow> maya" where
  "setAttr_verticalPan cam v w =
     w\<lparr>cameras := (cameras w)(cam := (cameras w cam)\<lparr>verticalPan := v\<rparr>),
       setAttrLog := setAttrLog w @ [(cam @ ''.verticalPan'', FloatValue v)]\<rparr>"

definition setAttr_zoom :: "string \<Rightarrow> real \<Rightarrow> maya \<Rightarrow> maya" where
  "setAttr_zoom cam v w =
     w\<lparr>cameras := (cameras w)(cam := (cameras w cam)\<lparr>zoom := v\<rparr>),
       setAttrLog := setAttrLog w @ [(cam @ ''.zoom'', FloatValue v)]\<rparr>"

subsection \<open>State of the tool\<close>

text \<open>
  The fields of the class \<open>QuickZoom\<close>; the private field \<open>_x\<close> is written \<open>qz_x\<close>.
  \<open>_mfn\<close> is the handle of the camera, \<open>None\<close> before the first press; reads through
  it see the camera as it is at that moment.
\<close>

record QuickZoom =
  qz_mfn :: "string option"
  qz_width :: real
  qz_height :: real
  qz_ratio :: real
  qz_hPan :: real
  qz_vPan :: real
  qz_startX :: int
  qz_startY :: int
  qz_endX :: int
  qz_endY :: int

definition qz_init :: QuickZoom where
  "qz_init = \<lparr> qz_mfn = None, qz_width = 0, qz_height = 0, qz_ratio = 0, qz_hPan = 0,
               qz_vPan = 0, qz_startX = 0, qz_startY = 0, qz_endX = 0, qz_endY = 0 \<rparr>"

subsection \<open>Calculation\<close>

definition isHorizontal :: "QuickZoom \<Rightarrow> maya \<Rightarrow> error + bool" where
  "isHorizontal s w =
     (if qz_height s = 0 then Inl ZeroDivisionError
      else (let portRatio = qz_width s / qz_height s
            in case qz_mfn s of
                 None \<Rightarrow> Inl AttributeError
               | Some cam \<Rightarrow>
                   (let h1 = (if filmFit (cameras w cam) = kFillFilmFit
                              then (if portRatio < qz_ratio s then False else True)
                              else True);
                        h2 = (if filmFit (cameras w cam) = kVerticalFilmFit then False else h1)
                    in Inr h2)))"

definition getZoom :: "QuickZoom \<Rightarrow> maya \<Rightarrow> error + real" where
  "getZoom s w =
     (case isHorizontal s w of
        Inl e \<Rightarrow> Inl e
      | Inr horizontal \<Rightarrow>
          (let startv = (if \<not> horizontal then qz_endY s else qz_startX s);
               endv = (if \<not> horizontal then qz_startY s else qz_endX s);
               size = (if endv > startv then endv - startv else startv - endv)
           in case isHorizontal s w of
                Inl e \<Rightarrow> Inl e
              | Inr horizontal2 \<Rightarrow>
                  if horizontal2
                  then (if qz_width s = 0 then Inl ZeroDivisionError
                        else Inr (real_of_int size / qz_width s))
                  else (if qz_height s = 0 then Inl ZeroDivisionError
                        else Inr (real_of_int size / qz_height s))))"

definition zoomView :: "QuickZoom \<Rightarrow> maya \<Rightarrow> error + maya" where
  "zoomView s w =
     (case qz_mfn s of
        None \<Rightarrow> Inl AttributeError
      | Some cam \<Rightarrow>
          (let ovs = overscan (cameras w cam);
               apertureX = horizontalFilmAperture (cameras w cam);
               apertureY = verticalFilmAperture (cameras w cam)
           in case isHorizontal s w of
                Inl e \<Rightarrow> Inl e
              | Inr horizontal \<Rightarrow>
                  if horizontal \<and> qz_ratio s = 0 then Inl ZeroDivisionError
                  else
                    (let portWidth = (if horizontal then qz_width s else qz_height s * qz_ratio s);
                         portHeight = (if horizontal then qz_width s / qz_ratio s else qz_height s);
                         viewCenterX = portWidth / 2;
                         viewCenterY = portHeight / 2;
                         dragHalfX = real_of_int (qz_endX s - qz_startX s) / 2;
                         dragHalfY = real_of_int (qz_endY s - qz_startY s) / 2;
                         regionCenterX =
                           (if horizontal then dragHalfX + real_of_int (qz_startX s)
                            else dragHalfX + real_of_int (qz_startX s) - ((qz_width s - portWidth) / 2));
                         regionCenterY =
                           (if horizontal
                            then dragHalfY + real_of_int (qz_startY s) - ((qz_height s - portHeight) / 2)
                            else dragHalfY + real_of_int (qz_startY s));
                         deltaCenterX = regionCenterX - viewCenterX;
                         deltaCenterY = regionCenterY - viewCenterY
                     in if portWidth = 0 \<or> portHeight = 0 then Inl ZeroDivisionError
                        else
                          (let offsetX = deltaCenterX / portWidth * ovs;
                               offsetY = deltaCenterY / portHeight * ovs;
                               panX = apertureX * offsetX;
                               panY = apertureY * offsetY;
                               w1 = setAttr_panZoomEnabled cam True w;
                               w2 = setAttr_horizontalPan cam panX w1;
                               w3 = setAttr_verticalPan cam panY w2
                           in case getZoom s w3 of
                                Inl e \<Rightarrow> Inl e
                              | Inr z \<Rightarrow>
                                  (let zoom1 = z * ovs;
                                       zoom2 = (if zoom1 \<le> 0 then 1 / 100 else zoom1)
                                   in Inr (setAttr_zoom cam zoom2 w3))))))"

definition togglePanZoom :: "QuickZoom \<Rightarrow> maya \<Rightarrow> error + maya" where
  "togglePanZoom s w =
     (case qz_mfn s of
        None \<Rightarrow> Inl AttributeError
      | Some cam \<Rightarrow>
          (let state = panZoomEnabled (cameras w cam)
           in Inr (setAttr_panZoomEnabled cam (\<not> state) w)))"

definition pan :: "QuickZoom \<Rightarrow> maya \<Rightarrow> error + maya" where
  "pan s w =
     (let deltaX = qz_startX s - qz_endX s;
          deltaY = qz_startY s - qz_endY s
      in case qz_mfn s of
           None \<Rightarrow> Inl AttributeError
         | Some cam \<Rightarrow>
             (let zoomv = zoom (cameras w cam);
                  hPan = qz_hPan s + real_of_int deltaX * (81 / 100000) * zoomv;
                  vPan = qz_vPan s + real_of_int deltaY * (81 / 100000) * zoomv
              in Inr (setAttr_verticalPan cam vPan (setAttr_horizontalPan cam hPan w))))"

subsection \<open>Press, drag, release\<close>

definition qz_press :: "QuickZoom \<Rightarrow> maya \<Rightarrow> string \<Rightarrow> error + (QuickZoom \<times> maya)" where
  "qz_press s w modifier =
     (let s1 = s\<lparr>qz_mfn := Some (activeCamera w)\<rparr>;
          cam = cameras w (activeCamera w)
      in if isOrtho cam then Inr (s1, w)
         else if modifier = ''ctrl'' then
           (case togglePanZoom s1 w of Inl e \<Rightarrow> Inl e | Inr w1 \<Rightarrow> Inr (s1, w1))
         else Inr (s1\<lparr>qz_ratio := aspectRatio cam, qz_hPan := horizontalPan cam,
                       qz_vPan := verticalPan cam,
                       qz_width := real_of_int (viewPortWidth w),
                       qz_height := real_of_int (viewPortHeight w)\<rparr>, w))"

definition qz_drag :: "QuickZoom \<Rightarrow> maya \<Rightarrow> real \<times> real \<Rightarrow> real \<times> real \<Rightarrow> string \<Rightarrow> error + (QuickZoom \<times> maya)" where
  "qz_drag s w anchorPoint dragPoint modifier =
     (let s1 = s\<lparr>qz_startX := py_int (fst anchorPoint), qz_startY := py_int (snd anchorPoint),
                  qz_endX := py_int (fst dragPoint), qz_endY := py_int (snd dragPoint)\<rparr>
      in if modifier = ''shift'' then
           (case qz_mfn s1 of
              None \<Rightarrow> Inl AttributeError
            | Some cam \<Rightarrow>
                if panZoomEnabled (cameras w cam)
                then (case pan s1 w of Inl e \<Rightarrow> Inl e | Inr w1 \<Rightarrow> Inr (s1, w1))
                else Inr (s1, w))
         else Inr (s1, w))"

definition qz_release :: "QuickZoom \<Rightarrow> maya \<Rightarrow> string \<Rightarrow> error + (QuickZoom \<times> maya)" where
  "qz_release s w modifier =
     (if modifier = ''none'' then
        (case zoomView s w of Inl e \<Rightarrow> Inl e | Inr w1 \<Rightarrow> Inr (s, w1))
      else Inr (s, w))"

text \<open>
  One gesture as the host dispatches it: press, then the drag updates in order (each with
  its anchor point, drag point and modifier), then release. An exception ends it.
\<close>

fun qz_drags :: "QuickZoom \<times> maya \<Rightarrow> ((real \<times> real) \<times> (real \<times> real) \<times> string) list \<Rightarrow> error + (QuickZoom \<times> maya)" where
  "qz_drags sw [] = Inr sw"
| "qz_drags sw ((a, p, m) # ds) =
     (case qz_drag (fst sw) (snd sw) a p m of Inl e \<Rightarrow> Inl e | Inr sw1 \<Rightarrow> qz_drags sw1 ds)"

definition qz_gesture :: "QuickZoom \<Rightarrow> maya \<Rightarrow> string \<Rightarrow> ((real \<times> real) \<times> (real \<times> real) \<times> string) list \<Rightarrow> string \<Rightarrow> error + (QuickZoom \<times> maya)" where
  "qz_gesture s w pressModifier ds releaseModifier =
     (case qz_press s w pressModifier of
        Inl e \<Rightarrow> Inl e
      | Inr sw1 \<Rightarrow>
          (case qz_drags sw1 ds of
             Inl e \<Rightarrow> Inl e
           | Inr sw2 \<Rightarrow> qz_release (fst sw2) (snd sw2) releaseModifier))"

subsection \<open>A concrete session\<close>

text \<open>
  A perspective camera and an orthographic one in a view of 1920 by 1080 pixels.
  \<open>demo_persp\<close> has the perspective camera in the active view, \<open>demo_top\<close> the
  orthographic one.
\<close>

definition demo_camera :: camera where
  "demo_camera = \<lparr> isOrtho = False, aspectRatio = 16 / 9, horizontalPan = 0, verticalPan = 0,
      zoom = 1, overscan = 1, horizontalFilmAperture = 16 / 10, verticalFilmAperture = 9 / 10,
      filmFit = kFillFilmFit, panZoomEnabled = False \<rparr>"

definition demo_persp :: maya where
  "demo_persp = \<lparr> cameras = (\<lambda>n. if n = ''top'' then demo_camera\<lparr>isOrtho := True\<rparr> else demo_camera),
      activeCamera = ''persp'', viewPortWidth = 1920, viewPortHeight = 1080, setAttrLog = [] \<rparr>"

definition demo_top :: maya where
  "demo_top = demo_persp\<lparr>activeCamera := ''top''\<rparr>"

definition demo_pressed :: QuickZoom where
  "demo_pressed = \<lparr> qz_mfn = Some ''persp'', qz_width = 1920, qz_height = 1080, qz_ratio = 16 / 9,
      qz_hPan = 0, qz_vPan = 0, qz_startX = 0, qz_startY = 0, qz_endX = 0, qz_endY = 0 \<rparr>"

text \<open>
  \<open>demo_click\<close> is the state after a press and a drag update that never left the pixel
  (960, 540); \<open>demo_enabled\<close> is the session with pan/zoom switched on for the
  perspective camera.
\<close>

definition demo_click :: QuickZoom where
  "demo_click = demo_pressed\<lparr>qz_startX := 960, qz_startY := 540, qz_endX := 960, qz_endY := 540\<rparr>"

definition demo_enabled :: maya where
  "demo_enabled = setAttr_panZoomEnabled ''persp'' True demo_persp"

section \<open>Properties\<close>

subsection \<open>Reflection vector\<close>

text \<open>
  C1. For every view direction \<open>V\<close> and surface normal \<open>N\<close> the reflection vector is
  \<open>V - 2 (V \<cdot> N) N\<close>, component by component, with the Euclidean dot product written out.
\<close>

theorem reflectionVector_formula:
  "reflectionVector V N =
     MVector (vx V - 2 * (vx V * vx N + vy V * vy N + vz V * vz N) * vx N)
             (vy V - 2 * (vx V * vx N + vy V * vy N + vz V * vz N) * vy N)
             (vz V - 2 * (vx V * vx N + vy V * vy N + vz V * vz N) * vz N)"
  by (simp add: reflectionVector_def vdot_def vscale_def vminus_def algebra_simps)

subsection \<open>Helper facts\<close>

lemma py_int_of_int: "py_int (real_of_int i) = i"
  by (simp add: py_int_def)

lemma py_int_mono: "x \<le> y \<Longrightarrow> py_int x \<le> py_int y"
proof -
  assume xy: "x \<le> y"
  show ?thesis
  proof (cases "0 \<le> x")
    case True
    with xy have "0 \<le> y" by simp
    with True xy show ?thesis by (simp add: py_int_def floor_mono)
  next
    case False
    then have cx: "\<lceil>x\<rceil> \<le> 0" by (simp add: ceiling_le_iff)
    show ?thesis
    proof (cases "0 \<le> y")
      case True
      then have "0 \<le> \<lfloor>y\<rfloor>" by simp
      with cx have "\<lceil>x\<rceil> \<le> \<lfloor>y\<rfloor>" by linarith
      with False True show ?thesis by (simp add: py_int_def)
    next
      case ny: False
      with False xy show ?thesis by (simp add: py_int_def ceiling_mono)
    qed
  qed
qed

lemma place_write_ok:
  assumes "pr_dag s = Some d" "pr_reflPoint s = Some P" "pr_reflVector s = Some R"
  shows "place_write h s = Inr (s, Some (d,
           (let t0 = worldMatrix h d;
                t1 = (if pr_translate s then t0\<lparr>translation := vplus (vscale (pr_moveDist s) R) P\<rparr> else t0)
            in if pr_rotate s then t1\<lparr>rotation := quatFromVector h s R\<rparr> else t1)))"
  using assms by (simp add: place_write_def Let_def)

lemma pr_drag_move:
  assumes "pr_isSet s" "pr_dag s = Some d" "modifier \<noteq> ''none''"
    "pr_reflPoint s = Some P" "pr_reflVector s = Some R"
  shows "\<exists>t. pr_drag h s a p modifier =
     Inr (s\<lparr>pr_moveDist := pr_dist s * (1 + real_of_int (py_int (fst p) - py_int (fst a)) *
              (if modifier = ''shift'' then pr_speedFast s else pr_speedSlow s))\<rparr>, Some (d, t))"
  using assms by (simp add: pr_drag_def pr_place_def Let_def place_write_ok)

lemma place_write_state: "place_write h s = Inr (s', w) \<Longrightarrow> s' = s"
  by (auto simp add: place_write_def Let_def split: option.splits if_splits sum.splits)

lemma armed_inv_init: "armed_inv pr_init"
  by (simp add: armed_inv_def pr_init_def)

lemma armed_inv_press: "armed_inv s \<Longrightarrow> armed_inv (pr_press h s)"
  by (simp add: armed_inv_def pr_press_def Let_def)

lemma armed_inv_release: "armed_inv s \<Longrightarrow> armed_inv (pr_release s)"
  by (simp add: armed_inv_def pr_release_def)

lemma armed_inv_finalize: "armed_inv (pr_finalize s)"
  by (simp add: armed_inv_def pr_finalize_def)

lemma armed_inv_drag:
  assumes "armed_inv s" and "pr_drag h s a p m = Inr (s', w)"
  shows "armed_inv s'"
  using assms
  by (auto simp add: pr_drag_def pr_place_def place_hit_def Let_def armed_inv_def
      split: if_splits sum.splits option.splits prod.splits dest!: place_write_state)

lemma vnormalize_demo_ray: "vnormalize (MVector 0 0 (-2)) = MVector 0 0 (-1)"
  by (simp add: vnormalize_def vlength_def vdot_def vscale_def)

lemma demo_armed_reached:
  "pr_drag demo_scene (pr_press demo_scene pr_init) (10, 10) (20, 20) ''none'' =
     Inr (demo_armed, Some (''light'', \<lparr> translation = MVector 0 0 2, rotation = MQuaternion 0 0 0 1, scaling = MVector 1 1 1 \<rparr>))"
  by (simp add: pr_drag_def pr_press_def pr_init_def pr_place_def getMesh_def demo_scene_def place_hit_def vnormalize_demo_ray
     reflectionVector_def vdot_def vscale_def vminus_def distance_def place_write_def quatFromVector_def vplus_def Let_def demo_armed_def)

lemma demo_moved_reached:
  "\<exists>w. pr_drag demo_scene demo_armed (100, 50) (150, 50) ''shift'' = Inr (demo_moved, w)"
  by (simp add: pr_drag_def pr_place_def place_write_def demo_armed_def demo_moved_def py_int_def Let_def)

subsection \<open>Move mode of the reflection placer\<close>

text \<open>
  C2. In move mode (armed, a target selected, modifier shift or ctrl) the new move distance
  is the base distance times one plus the horizontal drag times the speed, where the speed
  is the fast speed for shift and the slow speed for ctrl, and where both x coordinates are
  first truncated towards zero by \<open>int()\<close>. For whole-numbered coordinates this is the
  formula \<open>baseDistance * (1 + (currentX - anchorX) * speed)\<close>.
\<close>

theorem move_distance_truncated:
  assumes "pr_isSet s" and "pr_dag s = Some d"
    and "modifier = ''shift'' \<or> modifier = ''ctrl''"
    and "pr_reflPoint s = Some P" and "pr_reflVector s = Some R"
  shows "\<exists>s' w. pr_drag h s anchorPoint dragPoint modifier = Inr (s', w) \<and>
           pr_moveDist s' = pr_dist s *
             (1 + real_of_int (py_int (fst dragPoint) - py_int (fst anchorPoint)) *
                  (if modifier = ''shift'' then pr_speedFast s else pr_speedSlow s)) \<and>
           (fst dragPoint \<in> \<int> \<and> fst anchorPoint \<in> \<int> \<longrightarrow>
              pr_moveDist s' = pr_dist s *
                (1 + (fst dragPoint - fst anchorPoint) *
                     (if modifier = ''shift'' then pr_speedFast s else pr_speedSlow s)))"
proof -
  from assms(3) have m: "modifier \<noteq> ''none''" by auto
  from pr_drag_move [OF assms(1,2) m assms(4,5), of h anchorPoint dragPoint]
  obtain t where r: "pr_drag h s anchorPoint dragPoint modifier =
     Inr (s\<lparr>pr_moveDist := pr_dist s * (1 + real_of_int (py_int (fst dragPoint) - py_int (fst anchorPoint)) *
              (if modifier = ''shift'' then pr_speedFast s else pr_speedSlow s))\<rparr>, Some (d, t))"
    by blast
  have z: "fst dragPoint \<in> \<int> \<Longrightarrow> fst anchorPoint \<in> \<int> \<Longrightarrow>
       real_of_int (py_int (fst dragPoint) - py_int (fst anchorPoint)) = fst dragPoint - fst anchorPoint"
    by (auto elim!: Ints_cases simp: py_int_of_int)
  show ?thesis using r z by auto
qed

theorem move_distance_truncated_witness:
  "pr_isSet demo_armed \<and> pr_dag demo_armed = Some ''light'' \<and>
   pr_reflPoint demo_armed = Some (MVector 0 0 0) \<and> pr_reflVector demo_armed = Some (MVector 0 0 1) \<and>
   (\<exists>s' w. pr_drag demo_scene demo_armed (100, 50) (150, 50) ''shift'' = Inr (s', w) \<and>
      pr_moveDist s' = 3)"
proof -
  have a: "pr_isSet demo_armed" and b: "pr_dag demo_armed = Some ''light''"
    and c: "pr_reflPoint demo_armed = Some (MVector 0 0 0)"
    and d: "pr_reflVector demo_armed = Some (MVector 0 0 1)"
    by (simp_all add: demo_armed_def)
  have m: "''shift'' = ''shift'' \<or> ''shift'' = ''ctrl''" by simp
  from move_distance_truncated [OF a b m c d, of demo_scene "(100, 50)" "(150, 50)"]
  obtain s' w where r: "pr_drag demo_scene demo_armed (100, 50) (150, 50) ''shift'' = Inr (s', w)"
    and v: "pr_moveDist s' = pr_dist demo_armed *
             (1 + real_of_int (py_int (fst (150::real, 50::real)) - py_int (fst (100::real, 50::real))) *
                  (if ''shift'' = ''shift'' then pr_speedFast demo_armed else pr_speedSlow demo_armed))"
    by blast
  have "pr_moveDist s' = 3" using v by (simp add: demo_armed_def py_int_def)
  with a b c d r show ?thesis by blast
qed

text \<open>
  With the anchor at \<open>x = 0.5\<close> and the drag point at \<open>x = 1\<close> the source moves from
  distance 2 to 2.02, whereas the formula on the untruncated coordinates gives 2.01.
\<close>

theorem move_distance_counterexample:
  "\<not> isl (pr_drag demo_scene demo_armed (1 / 2, 0) (1, 0) ''shift'') \<and>
   pr_moveDist (fst (projr (pr_drag demo_scene demo_armed (1 / 2, 0) (1, 0) ''shift''))) = 202 / 100 \<and>
   pr_dist demo_armed * (1 + (1 - 1 / 2) * pr_speedFast demo_armed) = 201 / 100"
  by (simp add: pr_drag_def pr_place_def place_write_def demo_armed_def py_int_def Let_def)

text \<open>
  C6. A move-mode drag in a new gesture starts from the move distance reached at the end
  of the previous gesture: release leaves the move distance and the armed flag as they
  are, press (with a target selected) copies the move distance into the working base
  distance, and the first move-mode drag after it scales that distance.
\<close>

theorem move_continues_from_last_distance:
  assumes "pr_isSet s" and "activeSelection h = Some d"
    and "modifier = ''shift'' \<or> modifier = ''ctrl''"
    and "pr_reflPoint s = Some P" and "pr_reflVector s = Some R"
  shows "pr_moveDist (pr_release s) = pr_moveDist s \<and>
         pr_isSet (pr_release s) = pr_isSet s \<and>
         pr_dist (pr_press h (pr_release s)) = pr_moveDist s \<and>
         (\<exists>s' w. pr_drag h' (pr_press h (pr_release s)) anchorPoint dragPoint modifier = Inr (s', w) \<and>
            pr_moveDist s' = pr_moveDist s *
              (1 + real_of_int (py_int (fst dragPoint) - py_int (fst anchorPoint)) *
                   (if modifier = ''shift'' then pr_speedFast s else pr_speedSlow s)))"
proof -
  let ?s1 = "pr_press h (pr_release s)"
  have a: "pr_isSet ?s1" and b: "pr_dag ?s1 = Some d"
    and c: "pr_reflPoint ?s1 = Some P" and e: "pr_reflVector ?s1 = Some R"
    and f: "pr_dist ?s1 = pr_moveDist s"
    and g: "pr_speedFast ?s1 = pr_speedFast s" "pr_speedSlow ?s1 = pr_speedSlow s"
    using assms by (simp_all add: pr_press_def pr_release_def Let_def)
  from assms(3) have m: "modifier \<noteq> ''none''" by auto
  from pr_drag_move [OF a b m c e, of h' anchorPoint dragPoint]
  have "\<exists>s' w. pr_drag h' ?s1 anchorPoint dragPoint modifier = Inr (s', w) \<and>
            pr_moveDist s' = pr_moveDist s *
              (1 + real_of_int (py_int (fst dragPoint) - py_int (fst anchorPoint)) *
                   (if modifier = ''shift'' then pr_speedFast s else pr_speedSlow s))"
    using f g by auto
  moreover have "pr_moveDist (pr_release s) = pr_moveDist s \<and> pr_isSet (pr_release s) = pr_isSet s"
    by (simp add: pr_release_def)
  ultimately show ?thesis using f by blast
qed

theorem move_continues_from_last_distance_witness:
  "pr_isSet demo_moved \<and> activeSelection demo_scene = Some ''light'' \<and>
   pr_reflPoint demo_moved = Some (MVector 0 0 0) \<and> pr_reflVector demo_moved = Some (MVector 0 0 1) \<and>
   pr_dist demo_moved = 2 \<and> pr_moveDist demo_moved = 3 \<and>
   pr_dist (pr_press demo_scene (pr_release demo_moved)) = 3 \<and>
   (\<exists>s' w. pr_drag demo_scene (pr_press demo_scene (pr_release demo_moved)) (100, 50) (200, 50) ''ctrl'' = Inr (s', w) \<and>
      pr_moveDist s' = 33 / 10)"
proof -
  have a: "pr_isSet demo_moved" and b: "activeSelection demo_scene = Some ''light''"
    and c: "pr_reflPoint demo_moved = Some (MVector 0 0 0)"
    and d: "pr_reflVector demo_moved = Some (MVector 0 0 1)"
    and e: "pr_dist demo_moved = 2" "pr_moveDist demo_moved = 3"
    by (simp_all add: demo_armed_def demo_moved_def demo_scene_def)
  have m: "''ctrl'' = ''shift'' \<or> ''ctrl'' = ''ctrl''" by simp
  from move_continues_from_last_distance [OF a b m c d, of demo_scene "(100, 50)" "(200, 50)"]
  obtain s' w where p: "pr_dist (pr_press demo_scene (pr_release demo_moved)) = pr_moveDist demo_moved"
    and r: "pr_drag demo_scene (pr_press demo_scene (pr_release demo_moved)) (100, 50) (200, 50) ''ctrl'' = Inr (s', w)"
    and v: "pr_moveDist s' = pr_moveDist demo_moved *
              (1 + real_of_int (py_int (fst (200::real, 50::real)) - py_int (fst (100::real, 50::real))) *
                   (if ''ctrl'' = ''shift'' then pr_speedFast demo_moved else pr_speedSlow demo_moved))"
    by blast
  have "pr_moveDist s' = 33 / 10" using v by (simp add: demo_armed_def demo_moved_def py_int_def)
  with a b c d e p r show ?thesis by auto
qed

text \<open>
  C7. A drag update with modifier shift or ctrl while the tool is not armed is a no-op:
  the state is returned as it is and no transform is written.
\<close>

theorem drag_not_armed_noop:
  assumes "\<not> pr_isSet s" and "modifier = ''shift'' \<or> modifier = ''ctrl''"
  shows "pr_drag h s anchorPoint dragPoint modifier = Inr (s, None)"
  using assms by (auto simp add: pr_drag_def pr_place_def Let_def)

theorem drag_not_armed_noop_witness:
  "\<not> pr_isSet (pr_press demo_scene pr_init) \<and>
   pr_drag demo_scene (pr_press demo_scene pr_init) (10, 10) (20, 20) ''shift'' =
     Inr (pr_press demo_scene pr_init, None)"
  using drag_not_armed_noop [of "pr_press demo_scene pr_init" "''shift''" demo_scene "(10, 10)" "(20, 20)"]
  by (simp add: pr_press_def pr_init_def demo_scene_def)

text \<open>
  C8. A move-mode drag update leaves the stored reflection point and reflection vector
  unchanged; of the stored state only the move distance changes, and the position written
  is the reflection point plus the stored reflection vector scaled by the new distance
  (when the translation preference is set; otherwise the translation is left as it is).
\<close>

theorem move_keeps_reflection:
  assumes "pr_isSet s" and "pr_dag s = Some d"
    and "modifier = ''shift'' \<or> modifier = ''ctrl''"
    and "pr_reflPoint s = Some P" and "pr_reflVector s = Some R"
  shows "\<exists>s' t. pr_drag h s anchorPoint dragPoint modifier = Inr (s', Some (d, t)) \<and>
           pr_reflPoint s' = Some P \<and> pr_reflVector s' = Some R \<and>
           s' = s\<lparr>pr_moveDist := pr_moveDist s'\<rparr> \<and>
           translation t = (if pr_translate s then vplus (vscale (pr_moveDist s') R) P
                            else translation (worldMatrix h d))"
  using assms
  by (auto simp add: pr_drag_def pr_place_def Let_def place_write_ok)

theorem move_keeps_reflection_witness:
  "pr_isSet demo_armed \<and> pr_dag demo_armed = Some ''light'' \<and>
   pr_reflPoint demo_armed = Some (MVector 0 0 0) \<and> pr_reflVector demo_armed = Some (MVector 0 0 1) \<and>
   (\<exists>s' t. pr_drag demo_scene demo_armed (100, 50) (150, 50) ''shift'' = Inr (s', Some (''light'', t)) \<and>
      pr_reflPoint s' = Some (MVector 0 0 0) \<and> pr_reflVector s' = Some (MVector 0 0 1) \<and>
      s' = demo_armed\<lparr>pr_moveDist := pr_moveDist s'\<rparr> \<and>
      translation t = vplus (vscale (pr_moveDist s') (MVector 0 0 1)) (MVector 0 0 0))"
proof -
  have a: "pr_isSet demo_armed" and b: "pr_dag demo_armed = Some ''light''"
    and c: "pr_reflPoint demo_armed = Some (MVector 0 0 0)"
    and d: "pr_reflVector demo_armed = Some (MVector 0 0 1)"
    and e: "pr_translate demo_armed"
    by (simp_all add: demo_armed_def)
  have m: "''shift'' = ''shift'' \<or> ''shift'' = ''ctrl''" by simp
  from move_keeps_reflection [OF a b m c d, of demo_scene "(100, 50)" "(150, 50)"] e
  have "\<exists>s' t. pr_drag demo_scene demo_armed (100, 50) (150, 50) ''shift'' = Inr (s', Some (''light'', t)) \<and>
      pr_reflPoint s' = Some (MVector 0 0 0) \<and> pr_reflVector s' = Some (MVector 0 0 1) \<and>
      s' = demo_armed\<lparr>pr_moveDist := pr_moveDist s'\<rparr> \<and>
      translation t = vplus (vscale (pr_moveDist s') (MVector 0 0 1)) (MVector 0 0 0)"
    by simp
  with a b c d show ?thesis by blast
qed

text \<open>
  C9. For a fixed anchor, a positive speed and a positive base distance, the move distance
  does not decrease when the drag point's x coordinate increases: for every pair of
  current x values \<open>x1 < x2\<close> the move distance computed for \<open>x2\<close> is at least the
  one computed for \<open>x1\<close>. Nothing is said about when it is strictly greater.
\<close>

theorem move_distance_monotone:
  assumes "pr_isSet s" and "pr_dag s = Some d"
    and "modifier = ''shift'' \<or> modifier = ''ctrl''"
    and "pr_reflPoint s = Some P" and "pr_reflVector s = Some R"
    and "0 < (if modifier = ''shift'' then pr_speedFast s else pr_speedSlow s)"
    and "0 < pr_dist s" and "x1 < x2"
  shows "\<exists>s1 w1 s2 w2.
           pr_drag h s anchorPoint (x1, y1) modifier = Inr (s1, w1) \<and>
           pr_drag h s anchorPoint (x2, y2) modifier = Inr (s2, w2) \<and>
           pr_moveDist s1 \<le> pr_moveDist s2"
proof -
  let ?v = "if modifier = ''shift'' then pr_speedFast s else pr_speedSlow s"
  from assms(3) have m: "modifier \<noteq> ''none''" by auto
  from pr_drag_move [OF assms(1,2) m assms(4,5), of h anchorPoint "(x1, y1)"]
  obtain t1 where r1: "pr_drag h s anchorPoint (x1, y1) modifier =
     Inr (s\<lparr>pr_moveDist := pr_dist s * (1 + real_of_int (py_int x1 - py_int (fst anchorPoint)) * ?v)\<rparr>, Some (d, t1))"
    by auto
  from pr_drag_move [OF assms(1,2) m assms(4,5), of h anchorPoint "(x2, y2)"]
  obtain t2 where r2: "pr_drag h s anchorPoint (x2, y2) modifier =
     Inr (s\<lparr>pr_moveDist := pr_dist s * (1 + real_of_int (py_int x2 - py_int (fst anchorPoint)) * ?v)\<rparr>, Some (d, t2))"
    by auto
  from assms(8) have le: "py_int x1 \<le> py_int x2" by (simp add: py_int_mono)
  have v: "0 < ?v" by (rule assms(6))
  have "real_of_int (py_int x1 - py_int (fst anchorPoint)) * ?v \<le> real_of_int (py_int x2 - py_int (fst anchorPoint)) * ?v"
    using le v by (intro mult_right_mono) simp_all
  then have i1: "pr_dist s * (1 + real_of_int (py_int x1 - py_int (fst anchorPoint)) * ?v)
        \<le> pr_dist s * (1 + real_of_int (py_int x2 - py_int (fst anchorPoint)) * ?v)"
    using assms(7) by (intro mult_left_mono) simp_all
  show ?thesis using r1 r2 i1 by simp
qed

theorem move_distance_monotone_witness:
  "pr_isSet demo_armed \<and> pr_dag demo_armed = Some ''light'' \<and>
   pr_reflPoint demo_armed = Some (MVector 0 0 0) \<and> pr_reflVector demo_armed = Some (MVector 0 0 1) \<and>
   0 < pr_speedFast demo_armed \<and> 0 < pr_dist demo_armed \<and> (120::real) < 150 \<and>
   (\<exists>s1 w1 s2 w2.
      pr_drag demo_scene demo_armed (100, 50) (120, 50) ''shift'' = Inr (s1, w1) \<and>
      pr_drag demo_scene demo_armed (100, 50) (150, 50) ''shift'' = Inr (s2, w2) \<and>
      pr_moveDist s1 \<le> pr_moveDist s2)"
proof -
  have a: "pr_isSet demo_armed" and b: "pr_dag demo_armed = Some ''light''"
    and c: "pr_reflPoint demo_armed = Some (MVector 0 0 0)"
    and d: "pr_reflVector demo_armed = Some (MVector 0 0 1)"
    and e: "0 < (if ''shift'' = ''shift'' then pr_speedFast demo_armed else pr_speedSlow demo_armed)"
    and f: "0 < pr_dist demo_armed"
    by (simp_all add: demo_armed_def)
  have m: "''shift'' = ''shift'' \<or> ''shift'' = ''ctrl''" by simp
  have x: "(120::real) < 150" by simp
  from move_distance_monotone [OF a b m c d e f x, of demo_scene "(100, 50)" 50 50]
  have "\<exists>s1 w1 s2 w2.
      pr_drag demo_scene demo_armed (100, 50) (120, 50) ''shift'' = Inr (s1, w1) \<and>
      pr_drag demo_scene demo_armed (100, 50) (150, 50) ''shift'' = Inr (s2, w2) \<and>
      pr_moveDist s1 \<le> pr_moveDist s2"
    by blast
  with a b c d e f x show ?thesis by simp
qed

text \<open>
  The drag points \<open>x = 0.2\<close> and \<open>x = 0.7\<close> both truncate to 0 and give the same move
  distance.
\<close>

theorem move_distance_strict_counterexample:
  "(1 / 5 :: real) < 7 / 10 \<and> 0 < pr_speedFast demo_armed \<and> 0 < pr_dist demo_armed \<and>
   \<not> isl (pr_drag demo_scene demo_armed (0, 0) (1 / 5, 0) ''shift'') \<and>
   \<not> isl (pr_drag demo_scene demo_armed (0, 0) (7 / 10, 0) ''shift'') \<and>
   \<not> pr_moveDist (fst (projr (pr_drag demo_scene demo_armed (0, 0) (1 / 5, 0) ''shift'')))
     < pr_moveDist (fst (projr (pr_drag demo_scene demo_armed (0, 0) (7 / 10, 0) ''shift'')))"
  by (simp add: pr_drag_def pr_place_def place_write_def demo_armed_def py_int_def Let_def)

subsection \<open>Quick zoom: helper facts\<close>

lemma demo_pressed_reached: "qz_press qz_init demo_persp ''none'' = Inr (demo_pressed, demo_persp)"
  by (simp add: qz_press_def qz_init_def demo_persp_def demo_pressed_def demo_camera_def Let_def)

lemma qz_press_ortho:
  "isOrtho (cameras w (activeCamera w)) \<Longrightarrow> qz_press s w modifier = Inr (s\<lparr>qz_mfn := Some (activeCamera w)\<rparr>, w)"
  by (simp add: qz_press_def Let_def)

lemma getZoom_zero_size:
  assumes "qz_startX s = qz_endX s" "qz_startY s = qz_endY s" "getZoom s w = Inr z"
  shows "z = 0"
  using assms by (auto simp add: getZoom_def Let_def split: sum.splits if_splits)

lemma zoomView_result:
  assumes "zoomView s w = Inr w'" and "qz_mfn s = Some cam"
  shows "\<exists>z. last (setAttrLog w') = (cam @ ''.zoom'', FloatValue z) \<and> zoom (cameras w' cam) = z \<and> 0 < z \<and>
             (qz_startX s = qz_endX s \<and> qz_startY s = qz_endY s \<longrightarrow> z = 1 / 100)"
  using assms
  by (auto simp add: zoomView_def Let_def setAttr_zoom_def split: sum.splits if_splits dest: getZoom_zero_size)

lemma getZoom_not_isl:
  "qz_mfn s = Some cam \<Longrightarrow> qz_height s \<noteq> 0 \<Longrightarrow> qz_width s \<noteq> 0 \<Longrightarrow> \<not> isl (getZoom s w)"
  by (auto simp add: getZoom_def Let_def isHorizontal_def)

lemma isHorizontal_not_isl:
  "qz_mfn s = Some cam \<Longrightarrow> qz_height s \<noteq> 0 \<Longrightarrow> \<not> isl (isHorizontal s w)"
  by (simp add: isHorizontal_def Let_def)

lemma zoomView_ok:
  assumes "qz_mfn s = Some cam" "qz_height s \<noteq> 0" "qz_width s \<noteq> 0" "qz_ratio s \<noteq> 0"
  shows "\<exists>w'. zoomView s w = Inr w'"
  using assms
  by (simp add: zoomView_def Let_def sum.case_eq_if getZoom_not_isl isHorizontal_not_isl)

subsection \<open>Quick zoom: gestures\<close>

text \<open>
  C4. A gesture on an orthographic camera is expected to write no camera attribute. The
  press returns early, but the drag updates and the release still run: after an earlier
  press in a perspective view has cached the viewport, a plain drag and release in an
  orthographic view writes all four attributes of the orthographic camera.
\<close>

theorem ortho_gesture_writes_camera:
  "isOrtho (cameras demo_top (activeCamera demo_top)) \<and>
   qz_press qz_init demo_persp ''none'' = Inr (demo_pressed, demo_persp) \<and>
   \<not> isl (qz_gesture demo_pressed demo_top ''none'' [((960, 540), (1440, 810), ''none'')] ''none'') \<and>
   setAttrLog (snd (projr (qz_gesture demo_pressed demo_top ''none'' [((960, 540), (1440, 810), ''none'')] ''none''))) =
     [(''top.panZoomEnabled'', BoolValue True), (''top.horizontalPan'', FloatValue (1 / 5)),
      (''top.verticalPan'', FloatValue (9 / 80)), (''top.zoom'', FloatValue (1 / 4))]"
  by (simp add: qz_gesture_def qz_press_def qz_drag_def qz_release_def zoomView_def getZoom_def
      isHorizontal_def demo_top_def demo_persp_def demo_pressed_def demo_camera_def qz_init_def py_int_def
      setAttr_panZoomEnabled_def setAttr_horizontalPan_def setAttr_verticalPan_def setAttr_zoom_def Let_def)

text \<open>
  C5. Whenever the press has cached a viewport with non-zero width, height and aspect
  ratio, the release without modifier writes a zoom value, for every dragged region and
  every overscan; the value is strictly positive, and for a zero-size drag rectangle it is
  the floor 0.01. It is the last attribute written and the value the camera then holds.
\<close>

theorem release_zoom_positive:
  assumes "qz_mfn s = Some cam" and "qz_height s \<noteq> 0" and "qz_width s \<noteq> 0" and "qz_ratio s \<noteq> 0"
  shows "\<exists>w' z. qz_release s w ''none'' = Inr (s, w') \<and>
           last (setAttrLog w') = (cam @ ''.zoom'', FloatValue z) \<and> zoom (cameras w' cam) = z \<and>
           0 < z \<and> (qz_startX s = qz_endX s \<and> qz_startY s = qz_endY s \<longrightarrow> z = 1 / 100)"
proof -
  obtain w' where r: "zoomView s w = Inr w'" using zoomView_ok [OF assms] by blast
  from zoomView_result [OF r assms(1)] r show ?thesis
    by (auto simp add: qz_release_def)
qed

theorem release_zoom_positive_witness:
  "qz_mfn demo_click = Some ''persp'' \<and> qz_height demo_click \<noteq> 0 \<and> qz_width demo_click \<noteq> 0 \<and>
   qz_ratio demo_click \<noteq> 0 \<and> qz_startX demo_click = qz_endX demo_click \<and>
   qz_startY demo_click = qz_endY demo_click \<and>
   (\<exists>w'. qz_release demo_click demo_persp ''none'' = Inr (demo_click, w') \<and>
      last (setAttrLog w') = (''persp.zoom'', FloatValue (1 / 100)) \<and>
      zoom (cameras w' ''persp'') = 1 / 100)"
proof -
  have a: "qz_mfn demo_click = Some ''persp''" and b: "qz_height demo_click \<noteq> 0"
    and c: "qz_width demo_click \<noteq> 0" and d: "qz_ratio demo_click \<noteq> 0"
    and e: "qz_startX demo_click = qz_endX demo_click \<and> qz_startY demo_click = qz_endY demo_click"
    by (simp_all add: demo_click_def demo_pressed_def)
  from release_zoom_positive [OF a b c d, of demo_persp] e
  have "\<exists>w'. qz_release demo_click demo_persp ''none'' = Inr (demo_click, w') \<and>
      last (setAttrLog w') = (''persp.zoom'', FloatValue (1 / 100)) \<and>
      zoom (cameras w' ''persp'') = 1 / 100"
    by auto
  with a b c d e show ?thesis by blast
qed

text \<open>
  C10. A drag update with modifier shift stores the drag points; it writes the camera's
  horizontal and vertical pan exactly when the camera's pan/zoom flag is already on, and
  writes nothing to the camera when the flag is off.
\<close>

theorem shift_drag_pan_guard:
  assumes "qz_mfn s = Some cam"
  shows "\<exists>s'. s' = s\<lparr>qz_startX := py_int (fst anchorPoint), qz_startY := py_int (snd anchorPoint),
                      qz_endX := py_int (fst dragPoint), qz_endY := py_int (snd dragPoint)\<rparr> \<and>
           (\<not> panZoomEnabled (cameras w cam) \<longrightarrow>
              qz_drag s w anchorPoint dragPoint ''shift'' = Inr (s', w)) \<and>
           (panZoomEnabled (cameras w cam) \<longrightarrow>
              (\<exists>w' h v. qz_drag s w anchorPoint dragPoint ''shift'' = Inr (s', w') \<and>
                 setAttrLog w' = setAttrLog w @
                   [(cam @ ''.horizontalPan'', FloatValue h), (cam @ ''.verticalPan'', FloatValue v)]))"
  using assms
  by (simp add: qz_drag_def pan_def Let_def setAttr_horizontalPan_def setAttr_verticalPan_def)

theorem shift_drag_pan_guard_witness:
  "qz_mfn demo_pressed = Some ''persp'' \<and>
   \<not> panZoomEnabled (cameras demo_persp ''persp'') \<and> panZoomEnabled (cameras demo_enabled ''persp'') \<and>
   (\<exists>s'. qz_drag demo_pressed demo_persp (100, 100) (60, 80) ''shift'' = Inr (s', demo_persp) \<and>
      (\<exists>w' h v. qz_drag demo_pressed demo_enabled (100, 100) (60, 80) ''shift'' = Inr (s', w') \<and>
         setAttrLog w' = setAttrLog demo_enabled @
           [(''persp.horizontalPan'', FloatValue h), (''persp.verticalPan'', FloatValue v)]))"
proof -
  have a: "qz_mfn demo_pressed = Some ''persp''" by (simp add: demo_pressed_def)
  have b: "\<not> panZoomEnabled (cameras demo_persp ''persp'')"
    by (simp add: demo_persp_def demo_camera_def)
  have c: "panZoomEnabled (cameras demo_enabled ''persp'')"
    by (simp add: demo_enabled_def setAttr_panZoomEnabled_def)
  from shift_drag_pan_guard [OF a, where anchorPoint = "(100, 100)" and dragPoint = "(60, 80)" and w = demo_persp]
       shift_drag_pan_guard [OF a, where anchorPoint = "(100, 100)" and dragPoint = "(60, 80)" and w = demo_enabled] b c
  have "\<exists>s'. qz_drag demo_pressed demo_persp (100, 100) (60, 80) ''shift'' = Inr (s', demo_persp) \<and>
      (\<exists>w' h v. qz_drag demo_pressed demo_enabled (100, 100) (60, 80) ''shift'' = Inr (s', w') \<and>
         setAttrLog w' = setAttrLog demo_enabled @
           [(''persp.horizontalPan'', FloatValue h), (''persp.verticalPan'', FloatValue v)])"
    by auto
  with a b c show ?thesis by blast
qed

subsection \<open>Basis construction\<close>

text \<open>
  The rows are computed for a unit vector that is not parallel to the world up vector.
  With \<open>n\<close> the length of its projection on the ground plane, the first cross product
  is \<open>(-z/n, 0, x/n)\<close> and the second is \<open>(xy/n, -n, yz/n)\<close>; both are unit vectors,
  and together with the vector they are pairwise orthogonal.
\<close>

lemma sqrt_n: "0 < n \<Longrightarrow> n * n = x * x + z * z \<Longrightarrow> sqrt (z * z + x * x) = (n::real)"
proof -
  assume a: "0 < n" and b: "n * n = x * x + z * z"
  have "sqrt (z * z + x * x) = sqrt (n * n)" using b by (simp only: add.commute)
  also have "\<dots> = n" using a by simp
  finally show ?thesis .
qed

lemma cross1_form:
  assumes "0 < n" and "n * n = x * x + z * z"
  shows "vnormalize (vcross (MVector x y z) (MVector 0 1 0)) = MVector (- z / n) 0 (x / n)"
proof -
  have v: "vcross (MVector x y z) (MVector 0 1 0) = MVector (- z) 0 x"
    by (simp add: vcross_def)
  have l: "vlength (MVector (- z) 0 x) = n"
    using sqrt_n [OF assms] by (simp add: vlength_def vdot_def)
  show ?thesis using assms(1) by (simp add: v vnormalize_def l vscale_def)
qed


lemma cross2_vec:
  assumes "(n::real) \<noteq> 0" and "n * n = x * x + z * z"
  shows "vcross (MVector x y z) (MVector (- z / n) 0 (x / n)) = MVector (x * y / n) (- n) (y * z / n)"
proof -
  have "z * (- z / n) - x * (x / n) = - ((x * x + z * z) / n)"
    by (simp add: diff_divide_distrib add_divide_distrib)
  also have "\<dots> = - ((n * n) / n)" by (simp only: assms(2))
  also have "\<dots> = - n" using assms(1) by simp
  finally show ?thesis by (simp add: vcross_def)
qed


lemma cross2_unit:
  assumes "(n::real) \<noteq> 0" and "n * n = x * x + z * z" and "x * x + y * y + z * z = 1"
  shows "vdot (MVector (x * y / n) (- n) (y * z / n)) (MVector (x * y / n) (- n) (y * z / n)) = 1"
proof -
  have "(x * y / n) * (x * y / n) + (- n) * (- n) + (y * z / n) * (y * z / n)
        = y * y * ((x * x + z * z) / (n * n)) + n * n"
    by (simp add: algebra_simps add_divide_distrib)
  also have "\<dots> = y * y * ((n * n) / (n * n)) + n * n" by (simp only: assms(2))
  also have "\<dots> = y * y + n * n" using assms(1) by simp
  also have "\<dots> = 1" using assms(2,3) by linarith
  finally show ?thesis by (simp only: vdot_def MVector.sel)
qed


lemma cross2_form:
  assumes "0 < n" and "n * n = x * x + z * z" and "x * x + y * y + z * z = 1"
  shows "vnormalize (vcross (MVector x y z) (MVector (- z / n) 0 (x / n))) = MVector (x * y / n) (- n) (y * z / n)"
proof -
  have n0: "n \<noteq> 0" using assms(1) by simp
  have u: "vlength (MVector (x * y / n) (- n) (y * z / n)) = 1"
    by (simp only: vlength_def cross2_unit [OF n0 assms(2,3)] real_sqrt_one)
  show ?thesis
    by (simp only: cross2_vec [OF n0 assms(2)] vnormalize_def u) (simp add: vscale_def)
qed

lemma cross1_unit:
  assumes "(n::real) \<noteq> 0" and "n * n = x * x + z * z"
  shows "vdot (MVector (- z / n) 0 (x / n)) (MVector (- z / n) 0 (x / n)) = 1"
proof -
  have "(- z / n) * (- z / n) + 0 * 0 + (x / n) * (x / n) = (x * x + z * z) / (n * n)"
    by (simp add: add_divide_distrib)
  also have "\<dots> = (n * n) / (n * n)" by (simp only: assms(2))
  also have "\<dots> = 1" using assms(1) by simp
  finally show ?thesis by (simp only: vdot_def MVector.sel)
qed

lemma vector_cross1_orth:
  "vdot (MVector x y z) (MVector (- z / n) 0 (x / n)) = 0"
  by (simp add: vdot_def)

lemma vector_cross2_orth:
  assumes "(n::real) \<noteq> 0" and "n * n = x * x + z * z"
  shows "vdot (MVector x y z) (MVector (x * y / n) (- n) (y * z / n)) = 0"
proof -
  have "x * (x * y / n) + y * (- n) + z * (y * z / n) = y * ((x * x + z * z) / n) - y * n"
    by (simp add: algebra_simps add_divide_distrib)
  also have "\<dots> = y * ((n * n) / n) - y * n" by (simp only: assms(2))
  also have "\<dots> = 0" using assms(1) by simp
  finally show ?thesis by (simp only: vdot_def MVector.sel)
qed

lemma cross1_cross2_orth:
  "vdot (MVector (- z / n) 0 (x / n)) (MVector (x * y / n) (- n) (y * z / n)) = 0"
  by (simp add: vdot_def)

lemma cross1_cross2_vec:
  assumes "(n::real) \<noteq> 0" and "n * n = x * x + z * z"
  shows "vcross (MVector (- z / n) 0 (x / n)) (MVector (x * y / n) (- n) (y * z / n)) = MVector x y z"
proof -
  have "(x / n) * (x * y / n) - (- z / n) * (y * z / n) = y * ((x * x + z * z) / (n * n))"
    by (simp add: algebra_simps add_divide_distrib)
  also have "\<dots> = y * ((n * n) / (n * n))" by (simp only: assms(2))
  also have "\<dots> = y" using assms(1) by simp
  finally show ?thesis using assms(1) by (simp add: vcross_def)
qed


lemma neg_as_scale: "MVector (- vx a) (- vy a) (- vz a) = vscale (- 1) a"
  by (simp add: vscale_def)

lemma vdot_scale_left: "vdot (vscale k a) b = k * vdot a b"
  by (simp add: vdot_def vscale_def algebra_simps)

lemma vdot_scale_right: "vdot a (vscale k b) = k * vdot a b"
  by (simp add: vdot_def vscale_def algebra_simps)

lemma vdot_commute: "vdot a b = vdot b a"
  by (simp add: vdot_def algebra_simps)

lemma vcross_scale_left: "vcross (vscale k a) b = vscale k (vcross a b)"
  by (simp add: vcross_def vscale_def algebra_simps)

lemma vcross_scale_right: "vcross a (vscale k b) = vscale k (vcross a b)"
  by (simp add: vcross_def vscale_def algebra_simps)

lemma vcross_swap: "vcross b a = vscale (- 1) (vcross a b)"
  by (simp add: vcross_def vscale_def)

lemma triple_product: "vdot a (vcross b c) = vdot (vcross a b) c"
  by (simp add: vdot_def vcross_def algebra_simps)

lemma rightHanded_det:
  "rightHanded (a, b, c) \<Longrightarrow> vdot c c = 1 \<Longrightarrow> det3 (a, b, c) = 1"
  by (simp add: rightHanded_def det3_def triple_product)


lemma vscale_one: "vscale 1 a = a"
  by (simp add: vscale_def)

lemma vscale_vscale: "vscale k (vscale l a) = vscale (k * l) a"
  by (simp add: vscale_def algebra_simps)

lemma double_cross: "vcross (vcross a b) a = vminus (vscale (vdot a a) b) (vscale (vdot a b) a)"
  by (simp add: vcross_def vdot_def vminus_def vscale_def algebra_simps)

lemma frame_facts:
  assumes unit: "vdot V V = 1" and nonpar: "vcross V (MVector 0 1 0) \<noteq> MVector 0 0 0"
  obtains c1 c2 where "vnormalize (vcross V (MVector 0 1 0)) = c1" and "vnormalize (vcross V c1) = c2"
    and "vdot c1 c1 = 1" and "vdot c2 c2 = 1" and "vdot V c1 = 0" and "vdot V c2 = 0"
    and "vdot c1 c2 = 0" and "vcross V c1 = c2" and "vcross c1 c2 = V" and "vcross c2 V = c1"
proof -
  obtain x y z where V: "V = MVector x y z" by (cases V)
  define n where "n = sqrt (x * x + z * z)"
  from nonpar have "x \<noteq> 0 \<or> z \<noteq> 0" by (auto simp add: V vcross_def)
  then have pos: "0 < x * x + z * z"
    by (metis add_pos_nonneg add_nonneg_pos zero_le_square zero_less_mult_iff
        linorder_neqE_linordered_idom mult_neg_neg mult_pos_pos)
  then have n: "0 < n" by (simp add: n_def)
  have nn: "n * n = x * x + z * z" using pos by (simp add: n_def)
  have n0: "n \<noteq> 0" using n by simp
  have u: "x * x + y * y + z * z = 1" using unit by (simp add: V vdot_def)
  let ?c1 = "MVector (- z / n) 0 (x / n)"
  let ?c2 = "MVector (x * y / n) (- n) (y * z / n)"
  have d1: "vdot V ?c1 = 0" unfolding V by (rule vector_cross1_orth)
  have "vcross ?c2 V = vcross (vcross V ?c1) V"
    unfolding V by (simp only: cross2_vec [OF n0 nn])
  also have "\<dots> = ?c1"
    by (simp only: double_cross unit d1) (simp add: vminus_def vscale_def)
  finally have c2V: "vcross ?c2 V = ?c1" .
  show ?thesis
  proof (rule that [of ?c1 ?c2])
    show "vnormalize (vcross V (MVector 0 1 0)) = ?c1" unfolding V by (rule cross1_form [OF n nn])
    show "vnormalize (vcross V ?c1) = ?c2" unfolding V by (rule cross2_form [OF n nn u])
    show "vdot ?c1 ?c1 = 1" by (rule cross1_unit [OF n0 nn])
    show "vdot ?c2 ?c2 = 1" by (rule cross2_unit [OF n0 nn u])
    show "vdot V ?c1 = 0" by (rule d1)
    show "vdot V ?c2 = 0" unfolding V by (rule vector_cross2_orth [OF n0 nn])
    show "vdot ?c1 ?c2 = 0" by (rule cross1_cross2_orth)
    show "vcross V ?c1 = ?c2" unfolding V by (rule cross2_vec [OF n0 nn])
    show "vcross ?c1 ?c2 = V" unfolding V by (rule cross1_cross2_vec [OF n0 nn])
    show "vcross ?c2 V = ?c1" by (rule c2V)
  qed
qed


lemma rows_orthonormal:
  assumes "vdot V V = 1" and "vcross V (MVector 0 1 0) \<noteq> MVector 0 0 0"
  shows "orthonormal (quatFromVector_rows axis invert V)"
proof -
  from assms obtain c1 c2 where c: "vnormalize (vcross V (MVector 0 1 0)) = c1" "vnormalize (vcross V c1) = c2"
    and d: "vdot c1 c1 = 1" "vdot c2 c2 = 1" "vdot V c1 = 0" "vdot V c2 = 0" "vdot c1 c2 = 0"
    by (rule frame_facts)
  have e: "vdot c1 V = 0" "vdot c2 V = 0" "vdot c2 c1 = 0"
    using d by (simp_all add: vdot_commute)
  show ?thesis
    by (simp add: quatFromVector_rows_def Let_def c orthonormal_def neg_as_scale
        vdot_scale_left vdot_scale_right assms(1) d e)
qed

lemma rows_det:
  assumes "vdot V V = 1" and "vcross V (MVector 0 1 0) \<noteq> MVector 0 0 0"
  shows "det3 (quatFromVector_rows axis invert V) =
           (if (axis = 0 \<and> invert) \<or> (axis = 1 \<and> \<not> invert) then 1 else - 1)"
proof -
  from assms obtain c1 c2 where c: "vnormalize (vcross V (MVector 0 1 0)) = c1" "vnormalize (vcross V c1) = c2"
    and d: "vdot c1 c1 = 1" "vdot c2 c2 = 1"
    and x: "vcross V c1 = c2" "vcross c1 c2 = V" "vcross c2 V = c1"
    by (rule frame_facts)
  have y: "vcross c1 V = vscale (- 1) c2" "vcross c2 c1 = vscale (- 1) V" "vcross V c2 = vscale (- 1) c1"
    using x vcross_swap by metis+
  show ?thesis
    by (simp only: quatFromVector_rows_def Let_def c)
       (simp add: det3_def neg_as_scale vdot_scale_left vdot_scale_right
          vcross_scale_left vcross_scale_right vscale_vscale assms(1) d x y)
qed

lemma rows_rightHanded:
  assumes "vdot V V = 1" and "vcross V (MVector 0 1 0) \<noteq> MVector 0 0 0"
  shows "rightHanded (quatFromVector_rows axis invert V) \<longleftrightarrow> (axis = 0 \<and> invert) \<or> (axis = 1 \<and> \<not> invert)"
proof
  assume r: "rightHanded (quatFromVector_rows axis invert V)"
  obtain a b c where abc: "quatFromVector_rows axis invert V = (a, b, c)" by (cases "quatFromVector_rows axis invert V")
  from rows_orthonormal [OF assms, of axis invert] have "vdot c c = 1" by (simp add: abc orthonormal_def)
  with r have "det3 (quatFromVector_rows axis invert V) = 1" by (simp add: abc rightHanded_det)
  with rows_det [OF assms, of axis invert] show "(axis = 0 \<and> invert) \<or> (axis = 1 \<and> \<not> invert)"
    by (simp split: if_splits)
next
  assume h: "(axis = 0 \<and> invert) \<or> (axis = 1 \<and> \<not> invert)"
  from assms obtain c1 c2 where c: "vnormalize (vcross V (MVector 0 1 0)) = c1" "vnormalize (vcross V c1) = c2"
    and x: "vcross c2 V = c1"
    by (rule frame_facts)
  have y: "vcross V c2 = vscale (- 1) c1" using x vcross_swap by metis
  from h show "rightHanded (quatFromVector_rows axis invert V)"
    by (simp only: quatFromVector_rows_def Let_def c)
       (auto simp add: rightHanded_def neg_as_scale
          vcross_scale_left vcross_scale_right vscale_vscale vscale_one x y)
qed

text \<open>
  C3. The three rows are expected to be an orthonormal, right-handed frame for every axis
  preference and invert setting. They are orthonormal (\<open>rows_orthonormal\<close>), but
  right-handed only for the x axis with invert and the y axis without
  (\<open>rows_rightHanded\<close>); in the other four settings the determinant is -1
  (\<open>rows_det\<close>). With the preferences the tool starts with (z axis, inverted) and the
  reflection vector (0, 0, 1) the rows are (1, 0, 0), (0, 1, 0), (0, 0, -1): a mirror
  image of the identity.
\<close>

theorem default_frame_left_handed:
  "vdot (MVector 0 0 1) (MVector 0 0 1) = 1 \<and>
   vcross (MVector 0 0 1) (MVector 0 1 0) \<noteq> MVector 0 0 0 \<and>
   quatFromVector_rows 2 True (MVector 0 0 1) = (MVector 1 0 0, MVector 0 1 0, MVector 0 0 (- 1)) \<and>
   det3 (quatFromVector_rows 2 True (MVector 0 0 1)) = - 1 \<and>
   \<not> rightHanded (quatFromVector_rows 2 True (MVector 0 0 1))"
  by (simp add: quatFromVector_rows_def Let_def vnormalize_def vlength_def vdot_def vcross_def vscale_def
      det3_def rightHanded_def)

subsection \<open>Place mode stores the reflection vector\<close>

lemma place_hit_reflVector:
  assumes "place_hit h s dagPath xPos yPos = Inr (s', Some w)"
  shows "\<exists>hit. closestIntersection h dagPath (fst (viewToWorld h xPos yPos))
                 (vnormalize (snd (viewToWorld h xPos yPos))) = Some hit \<and>
           pr_reflPoint s' = Some hit \<and>
           pr_reflVector s' = Some (reflectionVector (vnormalize (snd (viewToWorld h xPos yPos)))
                                     (getClosestNormal h dagPath hit)) \<and>
           pr_isSet s'"
  using assms
  by (auto simp add: place_hit_def Let_def split: prod.splits option.splits dest!: place_write_state)

subsection \<open>Sessions of the reflection placer\<close>

text \<open>
  From the initial state every session runs through without an exception, and in every
  state it reaches the armed flag implies a stored reflection point and reflection vector:
  the hypotheses of the move-mode theorems hold whenever the tool is armed.
\<close>

lemma place_write_total:
  assumes "pr_dag s \<noteq> None" "pr_reflPoint s \<noteq> None" "pr_reflVector s \<noteq> None"
  shows "\<not> isl (place_write h s)"
proof -
  from assms obtain d P R where "pr_dag s = Some d" "pr_reflPoint s = Some P" "pr_reflVector s = Some R"
    by auto
  from place_write_ok [OF this, of h] show ?thesis by simp
qed

lemma pr_drag_total:
  assumes "armed_inv s"
  shows "\<not> isl (pr_drag h s a p m)"
proof (cases "pr_dag s")
  case None
  then show ?thesis by (simp add: pr_drag_def)
next
  case (Some d)
  show ?thesis
  proof (cases "m = ''none''")
    case True
    then show ?thesis using Some
      by (auto simp add: pr_drag_def pr_place_def getMesh_def place_hit_def Let_def place_write_total
          split: option.splits prod.splits)
  next
    case False
    then show ?thesis using Some assms
      by (auto simp add: pr_drag_def pr_place_def Let_def armed_inv_def place_write_total)
  qed
qed

lemma armed_inv_step: "armed_inv s \<Longrightarrow> pr_step s e = Inr s' \<Longrightarrow> armed_inv s'"
  by (cases e) (auto simp add: armed_inv_press armed_inv_release armed_inv_finalize
      split: sum.splits dest: armed_inv_drag)

lemma pr_step_total: "armed_inv s \<Longrightarrow> \<not> isl (pr_step s e)"
  using pr_drag_total by (cases e) (auto split: sum.splits simp: isl_def)

lemma pr_run_total: "armed_inv s \<Longrightarrow> \<exists>s'. pr_run s es = Inr s' \<and> armed_inv s'"
proof (induction es arbitrary: s)
  case Nil
  then show ?case by simp
next
  case (Cons e es)
  from pr_step_total [OF Cons.prems, of e] obtain s1 where s1: "pr_step s e = Inr s1"
    by (cases "pr_step s e") auto
  with Cons.prems have "armed_inv s1" by (rule armed_inv_step)
  from Cons.IH [OF this] s1 show ?case by simp
qed

lemma pr_run_init: "\<exists>s'. pr_run pr_init es = Inr s' \<and> armed_inv s'"
  by (rule pr_run_total [OF armed_inv_init])

end
